theory Spec2Isabelle
  imports Main "HOL-Library.AList"
begin

section \<open>The synchronisation engine of zotmd (core/sync\_engine.py)\<close>

text \<open>
  The engine drives four collaborators: the Zotero client (remote, read only), the state
  manager (an SQLite table of item states and the run metadata), the template renderer and
  the file manager. The engine's own code is what is verified here; the collaborators are
  modelled at their interface, as follows.
  \<^item> What the remote library, the parsers and the renderer answer is a parameter of every
    function (\<open>env\<close>); each answer is either a value or an exception.
  \<^item> The table, the run metadata and the artifacts on disk are explicit state (\<open>world\<close>).
  \<^item> Every call of a collaborator is appended to a log kept in the state, so that
    "no render call is made" is a statement about the log.
  \<^item> A call of the state manager or of the file manager may raise; \<open>fault env c\<close> says
    which calls do.
  The thread pool is modelled by running the submitted items one after the other in
  submission order; locks are left out. Progress bars and logging are left out, and
  \<open>last_synced_at\<close> (wall-clock time) is not part of the rows.
\<close>

subsection \<open>Data\<close>

datatype error = Exception string

text \<open>The fields of \<open>ZoteroItem\<close> that the engine reads.\<close>

record zotero_item =
  zi_key :: string
  zi_citation_key :: string
  zi_item_type :: string
  zi_version :: int

text \<open>A raw record of the remote API (\<open>item_data\<close>): its \<open>"key"\<close> entry, when it has one,
  and the rest of the payload, which the engine never inspects.\<close>

record raw_item =
  raw_key :: "string option"
  raw_body :: string

text \<open>A raw attachment: \<open>attachment.get("key")\<close>, \<open>data.parentItem\<close> and \<open>data.contentType\<close>
  (with its default, the empty string).\<close>

record raw_attachment =
  att_key :: "string option"
  att_parentItem :: "string option"
  att_contentType :: string

type_synonym raw_annotation = string

record annotation =
  ann_key :: string
  ann_parent_key :: "string option"

text \<open>\<open>ItemState\<close>, without the timestamp.\<close>

record item_state =
  zotero_key :: string
  citation_key :: string
  item_type :: string
  zotero_version :: int
  file_path :: string
  sync_status :: string
  content_hash :: "string option"

record template_version =
  template_hash :: string
  template_path :: string

text \<open>\<open>SyncResult\<close>; its lock is left out.\<close>

record sync_result =
  total_items_processed :: int
  items_created :: int
  items_updated :: int
  items_removed :: int
  items_skipped :: int
  annotations_synced :: int
  errors :: "string list"

text \<open>\<open>BatchData\<close>: two dictionaries.\<close>

record batch_data =
  annotations_by_item :: "string \<rightharpoonup> annotation list"
  attachment_keys :: "string \<rightharpoonup> string"

text \<open>The calls of collaborators that are logged.\<close>

datatype call =
    GetLibraryVersion
  | GetAllItems
  | GetItemsSinceVersion int
  | GetDeletedItems int
  | GetAllAnnotations
  | GetAllAttachments
  | ZotItem string
  | RenderItem string
  | ReadExisting string
  | WriteMarkdown string
  | GetContentHash string
  | HandleRemovedItem string
  | GetLastLibraryVersion
  | GetTemplateVersion
  | GetItemState string
  | UpsertItem string
  | MarkItemRemoved string
  | GetAllItemKeys
  | GetActiveItems
  | SelectItemJson string
  | UpdateLibraryVersion int
  | RecordFullSync int
  | RecordTemplateVersion string string

text \<open>The state: the table \<open>sync_items\<close> (each row an item state with its cached payload
  \<open>item_json\<close>; serialising the payload and reading it back is taken to give the payload),
  the run metadata, the artifacts by citation key, and the log of calls, oldest first.\<close>

record world =
  sync_items :: "(item_state \<times> raw_item option) list"
  last_library_version :: "int option"
  stored_template_version :: "template_version option"
  files :: "(string \<times> string) list"
  calls :: "call list"

text \<open>What the collaborators answer. The first block is the Zotero client, the second the
  two parsers (\<open>ZoteroItem.from_api_response\<close> gives no item for a record without a
  citation key), the third the renderer, the fourth the file manager's pure parts, and
  \<open>fault\<close> the calls of the state manager and the file manager that raise.\<close>

record env =
  remote_library_version :: "error + int"
  remote_items :: "error + raw_item list"
  remote_items_since :: "int \<Rightarrow> error + raw_item list"
  remote_deleted :: "int \<Rightarrow> error + string list"
  remote_annotations :: "error + raw_annotation list"
  remote_attachments :: "error + raw_attachment list"
  remote_item :: "string \<Rightarrow> error + raw_item"
  item_from_api_response :: "raw_item \<Rightarrow> error + zotero_item option"
  annotation_from_api_response :: "raw_annotation \<Rightarrow> error + annotation"
  render :: "zotero_item \<Rightarrow> annotation list \<Rightarrow> string option \<Rightarrow> string option \<Rightarrow> error + string"
  extract_annotations_section :: "string \<Rightarrow> string option"
  extract_notes_section :: "string \<Rightarrow> string option"
  template_hash_now :: string
  template_path_now :: string
  artifact_path :: "string \<Rightarrow> string"
  fingerprint :: "string \<Rightarrow> string"
  removed_path :: "string \<Rightarrow> string option"
  fault :: "call \<Rightarrow> error option"

subsection \<open>Programs with state and exceptions\<close>

type_synonym ('s, 'a) prog = "'s \<Rightarrow> (error + 'a) \<times> 's"

definition ret :: "'a \<Rightarrow> ('s, 'a) prog" where
  "ret x = (\<lambda>s. (Inr x, s))"

definition bind :: "('s, 'a) prog \<Rightarrow> ('a \<Rightarrow> ('s, 'b) prog) \<Rightarrow> ('s, 'b) prog" where
  "bind m f = (\<lambda>s. case m s of (Inl e, s') \<Rightarrow> (Inl e, s') | (Inr x, s') \<Rightarrow> f x s')"

definition lift_sum :: "error + 'a \<Rightarrow> ('s, 'a) prog" where
  "lift_sum r = (\<lambda>s. (r, s))"

definition reads :: "('s \<Rightarrow> 'a) \<Rightarrow> ('s, 'a) prog" where
  "reads f = (\<lambda>s. (Inr (f s), s))"

definition writes :: "('s \<Rightarrow> 's) \<Rightarrow> ('s, unit) prog" where
  "writes f = (\<lambda>s. (Inr (), f s))"

definition log_call :: "call \<Rightarrow> world \<Rightarrow> world" where
  "log_call c w = w\<lparr>calls := calls w @ [c]\<rparr>"

text \<open>A call of the state manager or the file manager: logged, then it raises or not.\<close>

definition invoke :: "env \<Rightarrow> call \<Rightarrow> (world, unit) prog" where
  "invoke env c = (\<lambda>w. case fault env c of
       Some e \<Rightarrow> (Inl e, log_call c w)
     | None \<Rightarrow> (Inr (), log_call c w))"

text \<open>A call of the remote client or the renderer: logged, and answered by \<open>env\<close>.\<close>

definition answer :: "call \<Rightarrow> error + 'a \<Rightarrow> (world, 'a) prog" where
  "answer c r = (\<lambda>w. (r, log_call c w))"

text \<open>A worker runs on the state and the shared result of the run.\<close>

definition in_world :: "(world, 'a) prog \<Rightarrow> (world \<times> sync_result, 'a) prog" where
  "in_world m = (\<lambda>(w, r). case m w of (x, w') \<Rightarrow> (x, (w', r)))"

definition on_result :: "(sync_result \<Rightarrow> sync_result) \<Rightarrow> (world \<times> sync_result, unit) prog" where
  "on_result f = (\<lambda>(w, r). (Inr (), (w, f r)))"

subsection \<open>Python strings\<close>

text \<open>Truth value of an optional string: \<open>None\<close> and the empty string are false.\<close>

definition truthy :: "string option \<Rightarrow> bool" where
  "truthy s = (case s of None \<Rightarrow> False | Some t \<Rightarrow> t \<noteq> [])"

fun startswith :: "string \<Rightarrow> string \<Rightarrow> bool" where
  "startswith s [] = True"
| "startswith [] (p # ps) = False"
| "startswith (c # cs) (p # ps) = (c = p \<and> startswith cs ps)"

text \<open>\<open>s.count(sub)\<close>: the occurrences of \<open>sub\<close> in \<open>s\<close> that do not overlap, from the left.\<close>

fun str_count :: "string \<Rightarrow> string \<Rightarrow> nat" where
  "str_count s [] = length s + 1"
| "str_count [] (p # ps) = 0"
| "str_count (c # cs) (p # ps) =
     (if startswith (c # cs) (p # ps) then 1 + str_count (drop (length ps) cs) (p # ps)
      else str_count cs (p # ps))"

text \<open>\<open>sub in s\<close>.\<close>

fun str_contains :: "string \<Rightarrow> string \<Rightarrow> bool" where
  "str_contains [] sub = (sub = [])"
| "str_contains (c # cs) sub = (startswith (c # cs) sub \<or> str_contains cs sub)"

text \<open>\<open>s.lower()\<close> on ASCII letters (content types are ASCII).\<close>

definition lower_char :: "char \<Rightarrow> char" where
  "lower_char c =
     (let n = (of_char c :: nat) in if 65 \<le> n \<and> n \<le> 90 then char_of (n + 32) else c)"

definition lower :: "string \<Rightarrow> string" where
  "lower s = map lower_char s"

subsection \<open>The Zotero client and the renderer\<close>

definition get_library_version :: "env \<Rightarrow> (world, int) prog" where
  "get_library_version env = answer GetLibraryVersion (remote_library_version env)"

definition get_all_items :: "env \<Rightarrow> (world, raw_item list) prog" where
  "get_all_items env = answer GetAllItems (remote_items env)"

definition get_items_since_version :: "env \<Rightarrow> int \<Rightarrow> (world, raw_item list) prog" where
  "get_items_since_version env v = answer (GetItemsSinceVersion v) (remote_items_since env v)"

definition get_deleted_items :: "env \<Rightarrow> int \<Rightarrow> (world, string list) prog" where
  "get_deleted_items env v = answer (GetDeletedItems v) (remote_deleted env v)"

definition get_all_annotations :: "env \<Rightarrow> (world, raw_annotation list) prog" where
  "get_all_annotations env = answer GetAllAnnotations (remote_annotations env)"

definition get_all_attachments :: "env \<Rightarrow> (world, raw_attachment list) prog" where
  "get_all_attachments env = answer GetAllAttachments (remote_attachments env)"

definition zot_item_call :: "env \<Rightarrow> string \<Rightarrow> (world, raw_item) prog" where
  "zot_item_call env k = answer (ZotItem k) (remote_item env k)"

definition render_item ::
  "env \<Rightarrow> zotero_item \<Rightarrow> annotation list \<Rightarrow> string option \<Rightarrow> string option \<Rightarrow> (world, string) prog"
where
  "render_item env item annotations preserved_notes attachment_key =
     answer (RenderItem (zi_key item)) (render env item annotations preserved_notes attachment_key)"

subsection \<open>The state manager\<close>

text \<open>Modelled from the spec: \<open>state_manager.py\<close> is missing. The store is one table keyed by
  the external key, each row with its cached payload, a singleton template version and the
  last-seen library version; a row is upserted whole, and marking it removed sets its
  status and keeps the row.\<close>

text \<open>The row of a key, and the upsert of a row: \<open>zotero_key\<close> is the primary key.\<close>

definition lookup_row ::
  "string \<Rightarrow> (item_state \<times> raw_item option) list \<Rightarrow> (item_state \<times> raw_item option) option"
where
  "lookup_row k rows = find (\<lambda>row. zotero_key (fst row) = k) rows"

fun upsert_row ::
  "item_state \<times> raw_item option \<Rightarrow> (item_state \<times> raw_item option) list
     \<Rightarrow> (item_state \<times> raw_item option) list"
where
  "upsert_row new [] = [new]"
| "upsert_row new (row # rows) =
     (if zotero_key (fst row) = zotero_key (fst new) then new # rows
      else row # upsert_row new rows)"

definition get_item_state :: "env \<Rightarrow> string \<Rightarrow> (world, item_state option) prog" where
  "get_item_state env k =
     bind (invoke env (GetItemState k)) (\<lambda>_.
     reads (\<lambda>w. map_option fst (lookup_row k (sync_items w))))"

definition upsert_item :: "env \<Rightarrow> item_state \<Rightarrow> raw_item option \<Rightarrow> (world, unit) prog" where
  "upsert_item env st item_json =
     bind (invoke env (UpsertItem (zotero_key st))) (\<lambda>_.
     writes (\<lambda>w. w\<lparr>sync_items := upsert_row (st, item_json) (sync_items w)\<rparr>))"

definition mark_item_removed :: "env \<Rightarrow> string \<Rightarrow> (world, unit) prog" where
  "mark_item_removed env k =
     bind (invoke env (MarkItemRemoved k)) (\<lambda>_.
     writes (\<lambda>w. w\<lparr>sync_items :=
       map (\<lambda>(st, j). if zotero_key st = k then (st\<lparr>sync_status := ''removed''\<rparr>, j) else (st, j))
         (sync_items w)\<rparr>))"

definition is_active :: "item_state \<times> raw_item option \<Rightarrow> bool" where
  "is_active row = (sync_status (fst row) = ''active'')"

text \<open>Modelled from the spec: the tracked keys are those of the active rows. Python gets a
  set; the model lists them in table order.\<close>

definition get_all_item_keys :: "env \<Rightarrow> (world, string list) prog" where
  "get_all_item_keys env =
     bind (invoke env GetAllItemKeys) (\<lambda>_.
     reads (\<lambda>w. map (\<lambda>row. zotero_key (fst row)) (filter is_active (sync_items w))))"

definition get_active_items :: "env \<Rightarrow> (world, item_state list) prog" where
  "get_active_items env =
     bind (invoke env GetActiveItems) (\<lambda>_.
     reads (\<lambda>w. map fst (filter is_active (sync_items w))))"

text \<open>\<open>SELECT item_json FROM sync_items WHERE zotero_key = ?\<close>, as the engine itself issues
  it; no row and a row without a payload both give \<open>None\<close>.\<close>

definition select_item_json :: "env \<Rightarrow> string \<Rightarrow> (world, raw_item option) prog" where
  "select_item_json env k =
     bind (invoke env (SelectItemJson k)) (\<lambda>_.
     reads (\<lambda>w. case lookup_row k (sync_items w) of None \<Rightarrow> None | Some (st, j) \<Rightarrow> j))"

definition get_last_library_version :: "env \<Rightarrow> (world, int option) prog" where
  "get_last_library_version env =
     bind (invoke env GetLastLibraryVersion) (\<lambda>_. reads last_library_version)"

definition update_library_version :: "env \<Rightarrow> int \<Rightarrow> (world, unit) prog" where
  "update_library_version env v =
     bind (invoke env (UpdateLibraryVersion v)) (\<lambda>_.
     writes (\<lambda>w. w\<lparr>last_library_version := Some v\<rparr>))"

definition record_full_sync :: "env \<Rightarrow> int \<Rightarrow> (world, unit) prog" where
  "record_full_sync env v =
     bind (invoke env (RecordFullSync v)) (\<lambda>_.
     writes (\<lambda>w. w\<lparr>last_library_version := Some v\<rparr>))"

definition get_template_version :: "env \<Rightarrow> (world, template_version option) prog" where
  "get_template_version env =
     bind (invoke env GetTemplateVersion) (\<lambda>_. reads stored_template_version)"

definition record_template_version :: "env \<Rightarrow> string \<Rightarrow> string \<Rightarrow> (world, unit) prog" where
  "record_template_version env h p =
     bind (invoke env (RecordTemplateVersion h p)) (\<lambda>_.
     writes (\<lambda>w. w\<lparr>stored_template_version :=
       Some \<lparr>template_hash = h, template_path = p\<rparr>\<rparr>))"

subsection \<open>The file manager\<close>

text \<open>Modelled from the spec: \<open>file_manager.py\<close> is missing. One artifact per citation key;
  reading gives its text or nothing, writing replaces it and gives its path, the content
  hash is that of the text on disk, and handling a removed item takes the artifact away
  from the active artifacts (moved or deleted, by configuration) and gives the new path
  or nothing.\<close>

definition read_existing :: "env \<Rightarrow> string \<Rightarrow> (world, string option) prog" where
  "read_existing env ck =
     bind (invoke env (ReadExisting ck)) (\<lambda>_. reads (\<lambda>w. map_of (files w) ck))"

definition write_markdown :: "env \<Rightarrow> string \<Rightarrow> string \<Rightarrow> (world, string) prog" where
  "write_markdown env ck markdown =
     bind (invoke env (WriteMarkdown ck)) (\<lambda>_.
     bind (writes (\<lambda>w. w\<lparr>files := AList.update ck markdown (files w)\<rparr>)) (\<lambda>_.
     ret (artifact_path env ck)))"

definition get_content_hash :: "env \<Rightarrow> string \<Rightarrow> (world, string option) prog" where
  "get_content_hash env ck =
     bind (invoke env (GetContentHash ck)) (\<lambda>_.
     reads (\<lambda>w. map_option (fingerprint env) (map_of (files w) ck)))"

definition handle_removed_item :: "env \<Rightarrow> string \<Rightarrow> (world, string option) prog" where
  "handle_removed_item env ck =
     bind (invoke env (HandleRemovedItem ck)) (\<lambda>_.
     bind (writes (\<lambda>w. w\<lparr>files := AList.delete ck (files w)\<rparr>)) (\<lambda>_.
     ret (removed_path env ck)))"

subsection \<open>\<open>SyncResult\<close>'s methods\<close>

definition empty_result :: sync_result where
  "empty_result = \<lparr>total_items_processed = 0, items_created = 0, items_updated = 0,
     items_removed = 0, items_skipped = 0, annotations_synced = 0, errors = []\<rparr>"

definition increment_processed :: "sync_result \<Rightarrow> sync_result" where
  "increment_processed r = r\<lparr>total_items_processed := total_items_processed r + 1\<rparr>"

definition increment_created :: "sync_result \<Rightarrow> sync_result" where
  "increment_created r = r\<lparr>items_created := items_created r + 1\<rparr>"

definition increment_updated :: "sync_result \<Rightarrow> sync_result" where
  "increment_updated r = r\<lparr>items_updated := items_updated r + 1\<rparr>"

definition increment_skipped :: "sync_result \<Rightarrow> sync_result" where
  "increment_skipped r = r\<lparr>items_skipped := items_skipped r + 1\<rparr>"

definition add_annotations :: "int \<Rightarrow> sync_result \<Rightarrow> sync_result" where
  "add_annotations n r = r\<lparr>annotations_synced := annotations_synced r + n\<rparr>"

definition add_error :: "string \<Rightarrow> sync_result \<Rightarrow> sync_result" where
  "add_error msg r = r\<lparr>errors := errors r @ [msg]\<rparr>"

subsection \<open>Per-item reconciliation: \<open>_sync_single_item_batch\<close>\<close>

text \<open>\<open>batch_data.annotations_by_item.get(item.key, [])\<close>.\<close>

definition annotations_for :: "batch_data \<Rightarrow> string \<Rightarrow> annotation list" where
  "annotations_for batch k = (case annotations_by_item batch k of None \<Rightarrow> [] | Some xs \<Rightarrow> xs)"

definition annotation_marker :: string where
  "annotation_marker = ''- <mark class=''"

text \<open>Lines 519 to 527: the markers counted in the annotations section of an artifact.\<close>

definition existing_annot_count :: "env \<Rightarrow> string \<Rightarrow> int" where
  "existing_annot_count env content =
     (case extract_annotations_section env content of
        Some sec \<Rightarrow> if sec \<noteq> [] then int (str_count sec annotation_marker) else 0
      | None \<Rightarrow> 0)"

text \<open>Lines 518 to 531: the annotation-change signal, given what \<open>read_existing\<close> returned.\<close>

definition annotations_changed :: "env \<Rightarrow> string option \<Rightarrow> annotation list \<Rightarrow> bool" where
  "annotations_changed env existing_content annotations =
     (case existing_content of
        Some content \<Rightarrow>
          if content \<noteq> [] then existing_annot_count env content \<noteq> int (length annotations)
          else length annotations > 0
      | None \<Rightarrow> length annotations > 0)"

text \<open>The marker count of the artifact as \<open>read_existing\<close> gives it: an artifact that is
  missing or empty has no marker.\<close>

definition artifact_annot_count :: "env \<Rightarrow> string option \<Rightarrow> int" where
  "artifact_annot_count env existing_content =
     (case existing_content of
        Some content \<Rightarrow> if content \<noteq> [] then existing_annot_count env content else 0
      | None \<Rightarrow> 0)"

text \<open>Lines 549 to 551: the notes kept from the artifact.\<close>

definition preserved_notes_for :: "env \<Rightarrow> string option \<Rightarrow> bool \<Rightarrow> string option" where
  "preserved_notes_for env existing_content is_update =
     (case existing_content of
        Some content \<Rightarrow>
          if is_update \<and> content \<noteq> [] then extract_notes_section env content else None
      | None \<Rightarrow> None)"

text \<open>The row written at lines 573 to 582.\<close>

definition new_item_state :: "zotero_item \<Rightarrow> string \<Rightarrow> string option \<Rightarrow> item_state" where
  "new_item_state item path hash =
     \<lparr>zotero_key = zi_key item, citation_key = zi_citation_key item,
      item_type = zi_item_type item, zotero_version = zi_version item,
      file_path = path, sync_status = ''active'', content_hash = hash\<rparr>"

text \<open>Lines 545 to 592: render, write, hash, upsert, count.\<close>

definition render_and_store ::
  "env \<Rightarrow> raw_item \<Rightarrow> zotero_item \<Rightarrow> annotation list \<Rightarrow> batch_data \<Rightarrow> string option \<Rightarrow> bool
     \<Rightarrow> (world \<times> sync_result, unit) prog"
where
  "render_and_store env item_data item annotations batch existing_content is_update =
     (let attachment_key = attachment_keys batch (zi_key item);
          preserved_notes = preserved_notes_for env existing_content is_update
      in
      bind (in_world (render_item env item annotations preserved_notes attachment_key)) (\<lambda>markdown.
      bind (in_world (write_markdown env (zi_citation_key item) markdown)) (\<lambda>path.
      bind (in_world (get_content_hash env (zi_citation_key item))) (\<lambda>hash.
      bind (in_world (upsert_item env (new_item_state item path hash) (Some item_data))) (\<lambda>_.
      if is_update then on_result increment_updated else on_result increment_created)))))"

definition sync_single_item_batch ::
  "env \<Rightarrow> raw_item \<Rightarrow> batch_data \<Rightarrow> bool \<Rightarrow> (world \<times> sync_result, unit) prog"
where
  "sync_single_item_batch env item_data batch force_rerender =
     bind (on_result increment_processed) (\<lambda>_.
     bind (lift_sum (item_from_api_response env item_data)) (\<lambda>parsed.
     case parsed of
       None \<Rightarrow> on_result increment_skipped
     | Some item \<Rightarrow>
         bind (in_world (get_item_state env (zi_key item))) (\<lambda>existing_state.
         let annotations = annotations_for batch (zi_key item) in
         bind (on_result (add_annotations (int (length annotations)))) (\<lambda>_.
         case existing_state of
           None \<Rightarrow> render_and_store env item_data item annotations batch None False
         | Some st \<Rightarrow>
             bind (in_world (read_existing env (zi_citation_key item))) (\<lambda>existing_content.
             let item_version_changed = zotero_version st < zi_version item in
             if \<not> force_rerender \<and> \<not> item_version_changed
                \<and> \<not> annotations_changed env existing_content annotations
             then ret ()
             else render_and_store env item_data item annotations batch existing_content True)))))"

subsection \<open>The batch prefetcher: \<open>_build_batch_data\<close>\<close>

text \<open>Lines 152 to 161 (and 192 to 201): one round of the loop over the attachments, on the
  dictionaries \<open>attachment_to_parent\<close> and \<open>batch_data.attachment_keys\<close>.\<close>

definition attachment_step ::
  "raw_attachment \<Rightarrow> (string \<rightharpoonup> string) \<times> (string \<rightharpoonup> string)
     \<Rightarrow> (string \<rightharpoonup> string) \<times> (string \<rightharpoonup> string)"
where
  "attachment_step attachment = (\<lambda>(attachment_to_parent, keys).
     case att_key attachment of
       None \<Rightarrow> (attachment_to_parent, keys)
     | Some attachment_key \<Rightarrow>
        (case att_parentItem attachment of
           None \<Rightarrow> (attachment_to_parent, keys)
         | Some parent_key \<Rightarrow>
             if attachment_key \<noteq> [] \<and> parent_key \<noteq> [] then
               (attachment_to_parent(attachment_key \<mapsto> parent_key),
                if str_contains (lower (att_contentType attachment)) ''pdf''
                then keys(parent_key \<mapsto> attachment_key) else keys)
             else (attachment_to_parent, keys)))"

definition index_attachments ::
  "raw_attachment list \<Rightarrow> (string \<rightharpoonup> string) \<times> (string \<rightharpoonup> string)"
where
  "index_attachments all_attachments = fold attachment_step all_attachments (Map.empty, Map.empty)"

text \<open>Lines 164 to 172 (and 204 to 212): the loop over the annotations.\<close>

fun index_annotations ::
  "env \<Rightarrow> (string \<rightharpoonup> string) \<Rightarrow> raw_annotation list \<Rightarrow> (string \<rightharpoonup> annotation list)
     \<Rightarrow> error + (string \<rightharpoonup> annotation list)"
where
  "index_annotations env attachment_to_parent [] by_item = Inr by_item"
| "index_annotations env attachment_to_parent (annotation_data # rest) by_item =
     (case annotation_from_api_response env annotation_data of
        Inl e \<Rightarrow> Inl e
      | Inr annotation \<Rightarrow>
         (case Option.bind (ann_parent_key annotation) attachment_to_parent of
            None \<Rightarrow> index_annotations env attachment_to_parent rest by_item
          | Some parent_item_key \<Rightarrow>
              if parent_item_key \<noteq> [] then
                index_annotations env attachment_to_parent rest
                  (by_item(parent_item_key \<mapsto>
                     (case by_item parent_item_key of None \<Rightarrow> [] | Some xs \<Rightarrow> xs) @ [annotation]))
              else index_annotations env attachment_to_parent rest by_item))"

text \<open>The two branches of \<open>show_progress\<close> differ in the progress bar only.\<close>

definition build_batch_data :: "env \<Rightarrow> bool \<Rightarrow> (world, batch_data) prog" where
  "build_batch_data env show_progress =
     bind (get_all_annotations env) (\<lambda>all_annotations.
     bind (get_all_attachments env) (\<lambda>all_attachments.
     bind (lift_sum (index_annotations env (fst (index_attachments all_attachments))
             all_annotations Map.empty)) (\<lambda>by_item.
     ret \<lparr>annotations_by_item = by_item,
          attachment_keys = snd (index_attachments all_attachments)\<rparr>)))"

subsection \<open>The worker pool\<close>

text \<open>\<open>try: ... except Exception as e: ...\<close>\<close>

definition try_catch :: "('s, 'a) prog \<Rightarrow> (error \<Rightarrow> ('s, 'a) prog) \<Rightarrow> ('s, 'a) prog" where
  "try_catch m handler = (\<lambda>s. case m s of (Inl e, s') \<Rightarrow> handler e s' | (Inr x, s') \<Rightarrow> (Inr x, s'))"

text \<open>\<open>result = SyncResult()\<close> is shared with the workers and read when they are done.\<close>

definition with_result ::
  "sync_result \<Rightarrow> (world \<times> sync_result, unit) prog \<Rightarrow> (world, sync_result) prog"
where
  "with_result r0 m = (\<lambda>w. case m (w, r0) of
       (Inl e, (w', r')) \<Rightarrow> (Inl e, w')
     | (Inr _, (w', r')) \<Rightarrow> (Inr r', w'))"

definition message :: "error \<Rightarrow> string" where
  "message e = (case e of Exception m \<Rightarrow> m)"

definition item_error_message :: "raw_item \<Rightarrow> error \<Rightarrow> string" where
  "item_error_message item_data e =
     ''Error syncing item '' @ (case raw_key item_data of None \<Rightarrow> ''UNKNOWN'' | Some k \<Rightarrow> k)
       @ '': '' @ message e"

text \<open>Lines 257 to 285, 287 to 307, 397 to 421 and 423 to 441: every item is submitted, and
  the exception of a worker is caught where its future is read.\<close>

fun process_items ::
  "env \<Rightarrow> raw_item list \<Rightarrow> batch_data \<Rightarrow> bool \<Rightarrow> (world \<times> sync_result, unit) prog"
where
  "process_items env [] batch force_rerender = ret ()"
| "process_items env (item_data # rest) batch force_rerender =
     bind (try_catch (sync_single_item_batch env item_data batch force_rerender)
            (\<lambda>e. on_result (add_error (item_error_message item_data e)))) (\<lambda>_.
     process_items env rest batch force_rerender)"

subsection \<open>Deletions\<close>

definition handle_deleted_item :: "env \<Rightarrow> string \<Rightarrow> (world, bool) prog" where
  "handle_deleted_item env item_key =
     bind (get_item_state env item_key) (\<lambda>item_state.
     case item_state of
       None \<Rightarrow> ret False
     | Some st \<Rightarrow>
         bind (handle_removed_item env (citation_key st)) (\<lambda>result_path.
         bind (mark_item_removed env item_key) (\<lambda>_.
         ret True)))"

text \<open>Lines 744 to 750.\<close>

fun handle_removed_loop :: "env \<Rightarrow> string list \<Rightarrow> int \<Rightarrow> (world, int) prog" where
  "handle_removed_loop env [] removed_count = ret removed_count"
| "handle_removed_loop env (item_key # rest) removed_count =
     bind (handle_deleted_item env item_key) (\<lambda>moved.
     handle_removed_loop env rest (if moved then removed_count + 1 else removed_count))"

text \<open>The difference of the two sets of keys is listed in table order.\<close>

definition handle_removed_items :: "env \<Rightarrow> (world, int) prog" where
  "handle_removed_items env =
     bind (get_all_items env) (\<lambda>current_items.
     bind (get_all_item_keys env) (\<lambda>tracked_keys.
     let zotero_keys = set (map raw_key current_items);
         removed_keys = remdups (filter (\<lambda>k. Some k \<notin> zotero_keys) tracked_keys)
     in if removed_keys = [] then ret 0 else handle_removed_loop env removed_keys 0))"

text \<open>Lines 449 to 451.\<close>

fun process_deleted :: "env \<Rightarrow> string list \<Rightarrow> sync_result \<Rightarrow> (world, sync_result) prog" where
  "process_deleted env [] result = ret result"
| "process_deleted env (item_key # rest) result =
     bind (handle_deleted_item env item_key) (\<lambda>_.
     process_deleted env rest (result\<lparr>items_removed := items_removed result + 1\<rparr>))"

subsection \<open>Full sync\<close>

definition full_sync :: "env \<Rightarrow> bool \<Rightarrow> (world, sync_result) prog" where
  "full_sync env show_progress =
     bind (get_library_version env) (\<lambda>current_version.
     bind (get_all_items env) (\<lambda>items.
     bind (build_batch_data env show_progress) (\<lambda>batch.
     bind (with_result empty_result (process_items env items batch True)) (\<lambda>result.
     bind (handle_removed_items env) (\<lambda>removed_count.
     bind (record_full_sync env current_version) (\<lambda>_.
     bind (record_template_version env (template_hash_now env) (template_path_now env)) (\<lambda>_.
     ret (result\<lparr>items_removed := removed_count\<rparr>))))))))"

subsection \<open>Template change: \<open>has_template_changed\<close> and the full re-render\<close>

definition has_template_changed :: "string \<Rightarrow> string \<Rightarrow> template_version option \<Rightarrow> bool" where
  "has_template_changed current_hash current_path stored_version =
     (case stored_version of
        None \<Rightarrow> False
      | Some sv \<Rightarrow>
          if template_hash sv \<noteq> current_hash then True
          else if template_path sv \<noteq> current_path then True
          else False)"

text \<open>Lines 895 to 916: the cached payload, or the record fetched from the remote library when
  there is none; a failed fetch is recorded and the item is left.\<close>

definition cached_or_fetched ::
  "env \<Rightarrow> item_state \<Rightarrow> (world \<times> sync_result, raw_item option) prog"
where
  "cached_or_fetched env item_state =
     bind (in_world (select_item_json env (zotero_key item_state))) (\<lambda>row.
     case row of
       None \<Rightarrow>
         try_catch
           (bind (in_world (zot_item_call env (zotero_key item_state))) (\<lambda>item_data.
            ret (Some item_data)))
           (\<lambda>e. bind (on_result (add_error
                   (''Failed to re-render '' @ citation_key item_state @ '': '' @ message e))) (\<lambda>_.
                 ret None))
     | Some item_data \<Rightarrow> ret (Some item_data))"

definition rerender_single_item ::
  "env \<Rightarrow> item_state \<Rightarrow> batch_data \<Rightarrow> (world \<times> sync_result, unit) prog"
where
  "rerender_single_item env item_state batch =
     bind (cached_or_fetched env item_state) (\<lambda>fetched.
     case fetched of
       None \<Rightarrow> ret ()
     | Some item_data \<Rightarrow>
         bind (lift_sum (item_from_api_response env item_data)) (\<lambda>parsed.
         case parsed of
           None \<Rightarrow> ret ()
         | Some item \<Rightarrow>
             let annotations = annotations_for batch (zotero_key item_state);
                 attachment_key = attachment_keys batch (zotero_key item_state)
             in
             bind (in_world (read_existing env (citation_key item_state))) (\<lambda>existing_content.
             bind (in_world (render_item env item annotations
                     (preserved_notes_for env existing_content True) attachment_key)) (\<lambda>markdown.
             bind (in_world (write_markdown env (citation_key item_state) markdown)) (\<lambda>_.
             bind (in_world (get_content_hash env (citation_key item_state))) (\<lambda>hash.
             bind (in_world (upsert_item env (item_state\<lparr>content_hash := hash\<rparr>)
                     (Some item_data))) (\<lambda>_.
             on_result increment_updated)))))))"

text \<open>The two branches of \<open>show_progress\<close> word the recorded error differently.\<close>

definition rerender_error_message :: "bool \<Rightarrow> item_state \<Rightarrow> error \<Rightarrow> string" where
  "rerender_error_message show_progress item_state e =
     (if show_progress then ''Error re-rendering '' @ citation_key item_state @ '': '' @ message e
      else message e)"

fun rerender_items ::
  "env \<Rightarrow> bool \<Rightarrow> item_state list \<Rightarrow> batch_data \<Rightarrow> (world \<times> sync_result, unit) prog"
where
  "rerender_items env show_progress [] batch = ret ()"
| "rerender_items env show_progress (item_state # rest) batch =
     bind (try_catch (rerender_single_item env item_state batch)
            (\<lambda>e. on_result (add_error (rerender_error_message show_progress item_state e)))) (\<lambda>_.
     rerender_items env show_progress rest batch)"

definition full_rerender_all_items :: "env \<Rightarrow> bool \<Rightarrow> (world, sync_result) prog" where
  "full_rerender_all_items env show_progress =
     bind (get_active_items env) (\<lambda>active_items.
     bind (build_batch_data env show_progress) (\<lambda>batch.
     bind (with_result empty_result (rerender_items env show_progress active_items batch)) (\<lambda>result.
     bind (record_template_version env (template_hash_now env) (template_path_now env)) (\<lambda>_.
     ret result))))"

subsection \<open>Incremental sync\<close>

definition incremental_sync :: "env \<Rightarrow> bool \<Rightarrow> (world, sync_result) prog" where
  "incremental_sync env show_progress =
     bind (get_last_library_version env) (\<lambda>last.
     case last of
       None \<Rightarrow> full_sync env show_progress
     | Some last_version \<Rightarrow>
         bind (get_library_version env) (\<lambda>current_version.
         bind (get_template_version env) (\<lambda>stored_version.
         if has_template_changed (template_hash_now env) (template_path_now env) stored_version
         then full_rerender_all_items env show_progress
         else if current_version = last_version then ret empty_result
         else if current_version - last_version > 1000 then full_sync env show_progress
         else
           bind (get_items_since_version env last_version) (\<lambda>modified_items.
           bind (build_batch_data env show_progress) (\<lambda>batch.
           bind (with_result empty_result
                  (process_items env modified_items batch False)) (\<lambda>result.
           bind (get_deleted_items env last_version) (\<lambda>deleted_item_keys.
           bind (process_deleted env deleted_item_keys result) (\<lambda>result.
           bind (update_library_version env current_version) (\<lambda>_.
           bind (record_template_version env (template_hash_now env) (template_path_now env)) (\<lambda>_.
           ret result))))))))))"

subsection \<open>Vocabulary of the properties\<close>

text \<open>An attachment that the loop of the prefetcher records for the parent \<open>p\<close>: it has a key
  and the parent \<open>p\<close>, both non-empty, and its content type contains \<open>pdf\<close> in whatever case.\<close>

definition is_primary_candidate :: "string \<Rightarrow> raw_attachment \<Rightarrow> bool" where
  "is_primary_candidate p a =
     (truthy (att_key a) \<and> att_parentItem a = Some p \<and> p \<noteq> []
      \<and> str_contains (lower (att_contentType a)) ''pdf'')"

text \<open>The calls that fetch the content of records from the remote library, and among them
  the fetch of the incremental path.\<close>

fun fetches_item_content :: "call \<Rightarrow> bool" where
  "fetches_item_content GetAllItems = True"
| "fetches_item_content (GetItemsSinceVersion v) = True"
| "fetches_item_content (ZotItem k) = True"
| "fetches_item_content c = False"

fun is_delta_fetch :: "call \<Rightarrow> bool" where
  "is_delta_fetch (GetItemsSinceVersion v) = True"
| "is_delta_fetch c = False"

text \<open>The calls logged between two states.\<close>

definition calls_since :: "world \<Rightarrow> world \<Rightarrow> call list" where
  "calls_since w w' = drop (length (calls w)) (calls w')"

text \<open>\<open>effect R m\<close>: whatever the state and however \<open>m\<close> ends, the states before and after
  are related by \<open>R\<close>. \<open>appended P\<close> relates two states when the log of the second is the log of
  the first with calls added that all satisfy \<open>P\<close>.\<close>

definition effect :: "('s \<Rightarrow> 's \<Rightarrow> bool) \<Rightarrow> ('s, 'a) prog \<Rightarrow> bool" where
  "effect R m = (\<forall>s. R s (snd (m s)))"

definition appended :: "(call \<Rightarrow> bool) \<Rightarrow> world \<Rightarrow> world \<Rightarrow> bool" where
  "appended P w w' = (\<exists>cs. calls w' = calls w @ cs \<and> (\<forall>c\<in>set cs. P c))"

definition on_world ::
  "(world \<Rightarrow> world \<Rightarrow> bool) \<Rightarrow> world \<times> sync_result \<Rightarrow> world \<times> sync_result \<Rightarrow> bool"
where
  "on_world R s s' = R (fst s) (fst s')"



text \<open>Mode selection reaches the incremental path: a version \<open>lv\<close> is on record, the remote
  version is \<open>cv\<close>, the template has not changed, \<open>cv\<close> is above \<open>lv\<close> by at most 1000 or below
  it, the records modified since \<open>lv\<close> are \<open>items\<close>, and the lookups do not raise.\<close>

definition delta_selected :: "env \<Rightarrow> world \<Rightarrow> int \<Rightarrow> int \<Rightarrow> raw_item list \<Rightarrow> bool" where
  "delta_selected env w lv cv items =
     (last_library_version w = Some lv \<and> fault env GetLastLibraryVersion = None
      \<and> remote_library_version env = Inr cv \<and> fault env GetTemplateVersion = None
      \<and> \<not> has_template_changed (template_hash_now env) (template_path_now env)
            (stored_template_version w)
      \<and> cv \<noteq> lv \<and> \<not> cv - lv > 1000 \<and> remote_items_since env lv = Inr items)"

subsection \<open>A small library, for concrete runs\<close>

definition demo_item :: zotero_item where
  "demo_item = \<lparr>zi_key = ''K1'', zi_citation_key = ''smith2020'', zi_item_type = ''book'',
     zi_version = 10\<rparr>"

definition demo_raw :: raw_item where
  "demo_raw = \<lparr>raw_key = Some ''K1'', raw_body = ''{}''\<rparr>"

definition demo_pdf :: raw_attachment where
  "demo_pdf = \<lparr>att_key = Some ''A1'', att_parentItem = Some ''K1'',
     att_contentType = ''application/pdf''\<rparr>"

text \<open>One record with one PDF and three annotations; the renderer writes one marker per
  annotation, the whole artifact is its annotations section, and nothing raises.\<close>

definition demo_env :: env where
  "demo_env = \<lparr>
     remote_library_version = Inr 12,
     remote_items = Inr [demo_raw],
     remote_items_since = (\<lambda>v. Inr [demo_raw]),
     remote_deleted = (\<lambda>v. Inr []),
     remote_annotations = Inr [''n1'', ''n2'', ''n3''],
     remote_attachments = Inr [demo_pdf],
     remote_item = (\<lambda>k. Inr demo_raw),
     item_from_api_response = (\<lambda>d. if raw_key d = Some ''K1'' then Inr (Some demo_item) else Inr None),
     annotation_from_api_response = (\<lambda>a. Inr \<lparr>ann_key = a, ann_parent_key = Some ''A1''\<rparr>),
     render = (\<lambda>item annotations notes attachment.
       Inr (concat (map (\<lambda>a. ''- <mark class=x>'') annotations))),
     extract_annotations_section = Some,
     extract_notes_section = (\<lambda>content. None),
     template_hash_now = ''h1'',
     template_path_now = ''built-in'',
     artifact_path = (\<lambda>ck. ck @ ''.md''),
     fingerprint = (\<lambda>content. content),
     removed_path = (\<lambda>ck. None),
     fault = (\<lambda>c. None)\<rparr>"

definition demo_batch :: "nat \<Rightarrow> batch_data" where
  "demo_batch n = \<lparr>
     annotations_by_item =
       [''K1'' \<mapsto> map (\<lambda>i. \<lparr>ann_key = ''n'', ann_parent_key = Some ''A1''\<rparr>) [0..<n]],
     attachment_keys = [''K1'' \<mapsto> ''A1'']\<rparr>"

definition demo_state :: "int \<Rightarrow> item_state" where
  "demo_state v = \<lparr>zotero_key = ''K1'', citation_key = ''smith2020'', item_type = ''book'',
     zotero_version = v, file_path = ''smith2020.md'', sync_status = ''active'',
     content_hash = None\<rparr>"

text \<open>The record is tracked at version \<open>v\<close> with the cached payload \<open>payload\<close>, its artifact has
  two markers, the library was last seen at version \<open>lv\<close> and the template \<open>h\<close> is on record.\<close>

definition demo_world :: "int \<Rightarrow> raw_item option \<Rightarrow> int option \<Rightarrow> string \<Rightarrow> world" where
  "demo_world v payload lv h = \<lparr>
     sync_items = [(demo_state v, payload)],
     last_library_version = lv,
     stored_template_version = Some \<lparr>template_hash = h, template_path = ''built-in''\<rparr>,
     files = [(''smith2020'', ''- <mark class=x>- <mark class=x>'')],
     calls = []\<rparr>"

definition empty_world :: "int option \<Rightarrow> world" where
  "empty_world lv = \<lparr>sync_items = [], last_library_version = lv,
     stored_template_version = None, files = [], calls = []\<rparr>"


text \<open>What the prefetcher builds from the small library.\<close>

definition demo_prefetched :: batch_data where
  "demo_prefetched = \<lparr>
     annotations_by_item = [''K1'' \<mapsto> [\<lparr>ann_key = ''n1'', ann_parent_key = Some ''A1''\<rparr>,
        \<lparr>ann_key = ''n2'', ann_parent_key = Some ''A1''\<rparr>,
        \<lparr>ann_key = ''n3'', ann_parent_key = Some ''A1''\<rparr>]],
     attachment_keys = [''K1'' \<mapsto> ''A1'']\<rparr>"

text \<open>Two PDFs of the same record.\<close>

definition two_pdfs :: "raw_attachment list" where
  "two_pdfs = [demo_pdf, demo_pdf\<lparr>att_key := Some ''A2''\<rparr>]"

text \<open>The remote library reports nothing modified and the deletion of a key, \<open>GHOST\<close>.\<close>

definition ghost_env :: env where
  "ghost_env = demo_env\<lparr>remote_items_since := (\<lambda>v. Inr []),
     remote_deleted := (\<lambda>v. Inr [''GHOST''])\<rparr>"

text \<open>The remote library is far ahead.\<close>

definition far_env :: env where
  "far_env = demo_env\<lparr>remote_library_version := Inr 5000\<rparr>"

text \<open>Failing collaborators: the renderer, the remote version, the annotation fetch, the
  deletion fetch and the commit of the library version. A record without a citation key.
  The state after the record of the small library has been rendered again.\<close>

definition boom_env :: env where
  "boom_env = demo_env\<lparr>render := (\<lambda>item annotations notes attachment. Inl (Exception ''boom''))\<rparr>"

definition offline_env :: env where
  "offline_env = demo_env\<lparr>remote_library_version := Inl (Exception ''offline'')\<rparr>"

definition no_annotations_env :: env where
  "no_annotations_env = demo_env\<lparr>remote_annotations := Inl (Exception ''timeout'')\<rparr>"

definition no_deleted_env :: env where
  "no_deleted_env = demo_env\<lparr>remote_deleted := (\<lambda>v. Inl (Exception ''timeout''))\<rparr>"

definition locked_env :: env where
  "locked_env = demo_env\<lparr>fault :=
     (\<lambda>c. if c = UpdateLibraryVersion 12 then Some (Exception ''locked'') else None)\<rparr>"

definition keyless_raw :: raw_item where
  "keyless_raw = \<lparr>raw_key = Some ''K2'', raw_body = ''{}''\<rparr>"

definition rendered_world :: "call list \<Rightarrow> world" where
  "rendered_world cs = \<lparr>
     sync_items = [(demo_state 10\<lparr>content_hash :=
        Some ''- <mark class=x>- <mark class=x>- <mark class=x>''\<rparr>, Some demo_raw)],
     last_library_version = Some 11,
     stored_template_version = Some \<lparr>template_hash = ''h1'', template_path = ''built-in''\<rparr>,
     files = [(''smith2020'', ''- <mark class=x>- <mark class=x>- <mark class=x>'')],
     calls = cs\<rparr>"

section \<open>Properties\<close>

subsection \<open>Unfolding programs\<close>

lemmas prog_defs = ret_def bind_def lift_sum_def reads_def writes_def log_call_def invoke_def
  answer_def in_world_def on_result_def

lemmas coll_defs = get_item_state_def upsert_item_def read_existing_def write_markdown_def
  get_content_hash_def render_item_def

lemmas result_defs = increment_processed_def increment_created_def increment_updated_def
  increment_skipped_def add_annotations_def add_error_def

lemmas client_defs = get_library_version_def get_all_items_def get_items_since_version_def
  get_deleted_items_def get_all_annotations_def get_all_attachments_def zot_item_call_def

lemmas store_defs = mark_item_removed_def get_all_item_keys_def get_active_items_def
  select_item_json_def get_last_library_version_def update_library_version_def
  record_full_sync_def get_template_version_def record_template_version_def
  handle_removed_item_def

lemmas engine_defs = incremental_sync_def full_sync_def full_rerender_all_items_def
  rerender_single_item_def cached_or_fetched_def handle_removed_items_def
  handle_deleted_item_def build_batch_data_def sync_single_item_batch_def render_and_store_def
  index_attachments_def attachment_step_def try_catch_def with_result_def
  has_template_changed_def annotations_changed_def existing_annot_count_def
  preserved_notes_for_def new_item_state_def annotations_for_def annotation_marker_def
  item_error_message_def rerender_error_message_def message_def lower_def lower_char_def

lemma demo_env_simps:
  "remote_library_version demo_env = Inr 12"
  "remote_items demo_env = Inr [demo_raw]"
  "remote_items_since demo_env v = Inr [demo_raw]"
  "remote_deleted demo_env v = Inr []"
  "remote_annotations demo_env = Inr [''n1'', ''n2'', ''n3'']"
  "remote_attachments demo_env = Inr [demo_pdf]"
  "remote_item demo_env k = Inr demo_raw"
  "item_from_api_response demo_env d =
     (if raw_key d = Some ''K1'' then Inr (Some demo_item) else Inr None)"
  "annotation_from_api_response demo_env a = Inr \<lparr>ann_key = a, ann_parent_key = Some ''A1''\<rparr>"
  "render demo_env item annotations notes attachment =
     Inr (concat (map (\<lambda>a. ''- <mark class=x>'') annotations))"
  "extract_annotations_section demo_env = Some"
  "extract_notes_section demo_env content = None"
  "template_hash_now demo_env = ''h1''"
  "template_path_now demo_env = ''built-in''"
  "artifact_path demo_env ck = ck @ ''.md''"
  "fingerprint demo_env content = content"
  "removed_path demo_env ck = None"
  "fault demo_env c = None"
  by (simp_all add: demo_env_def)

lemmas demo_simps = demo_env_simps demo_item_def demo_raw_def demo_pdf_def demo_batch_def
  demo_state_def demo_world_def empty_world_def lookup_row_def

lemmas eval_defs = engine_defs client_defs store_defs coll_defs prog_defs result_defs
  demo_simps empty_result_def is_active_def Let_def

lemma demo_two_markers:
  "artifact_annot_count demo_env (Some ''- <mark class=x>- <mark class=x>'') = 2"
  by (simp add: artifact_annot_count_def existing_annot_count_def demo_env_simps
      annotation_marker_def)

subsection \<open>Rules for effects\<close>

lemma effectD: "effect R m \<Longrightarrow> m s = (x, s') \<Longrightarrow> R s s'"
  by (auto simp: effect_def dest: spec [of _ s])

lemma effect_ret: "reflp R \<Longrightarrow> effect R (ret x)"
  and effect_reads: "reflp R \<Longrightarrow> effect R (reads g)"
  and effect_lift_sum: "reflp R \<Longrightarrow> effect R (lift_sum v)"
  by (auto simp: effect_def ret_def reads_def lift_sum_def reflp_def)

lemma effect_bind:
  assumes "transp R" "effect R m" "\<And>x. effect R (f x)"
  shows "effect R (bind m f)"
  unfolding effect_def bind_def
proof
  fix s
  obtain v s1 where m: "m s = (v, s1)" by (cases "m s")
  have 1: "R s s1" using assms(2) m by (rule effectD)
  show "R s (snd (case m s of (Inl e, s') \<Rightarrow> (Inl e, s') | (Inr x, s') \<Rightarrow> f x s'))"
  proof (cases v)
    case (Inl e)
    then show ?thesis using m 1 by simp
  next
    case (Inr x)
    have "R s1 (snd (f x s1))" using assms(3) [of x] by (simp add: effect_def)
    with 1 have "R s (snd (f x s1))" using assms(1) by (rule transpD [rotated])
    then show ?thesis using m Inr by simp
  qed
qed

lemma effect_try_catch:
  assumes "transp R" "effect R m" "\<And>e. effect R (h e)"
  shows "effect R (try_catch m h)"
  unfolding effect_def try_catch_def
proof
  fix s
  obtain v s1 where m: "m s = (v, s1)" by (cases "m s")
  have 1: "R s s1" using assms(2) m by (rule effectD)
  show "R s (snd (case m s of (Inl e, s') \<Rightarrow> h e s' | (Inr x, s') \<Rightarrow> (Inr x, s')))"
  proof (cases v)
    case (Inr x)
    then show ?thesis using m 1 by simp
  next
    case (Inl e)
    have "R s1 (snd (h e s1))" using assms(3) [of e] by (simp add: effect_def)
    with 1 have "R s (snd (h e s1))" using assms(1) by (rule transpD [rotated])
    then show ?thesis using m Inl by simp
  qed
qed

lemma effect_in_world: "effect R m \<Longrightarrow> effect (on_world R) (in_world m)"
  by (auto simp: effect_def in_world_def on_world_def split: prod.splits dest: spec)
     (metis snd_conv)

lemma effect_on_result: "reflp R \<Longrightarrow> effect (on_world R) (on_result g)"
  by (auto simp: effect_def on_result_def on_world_def reflp_def)

lemma effect_with_result: "effect (on_world R) m \<Longrightarrow> effect R (with_result r0 m)"
  by (auto simp: effect_def with_result_def on_world_def split: prod.splits sum.splits)
     (metis fst_conv snd_conv)+

lemma reflp_on_world: "reflp R \<Longrightarrow> reflp (on_world R)"
  by (auto simp: reflp_def on_world_def)

lemma transp_on_world: "transp R \<Longrightarrow> transp (on_world R)"
  by (auto simp: transp_def on_world_def)

lemma reflp_appended: "reflp (appended P)"
  by (auto simp: reflp_def appended_def)

lemma transp_appended: "transp (appended P)"
  by (auto simp: transp_def appended_def)

lemma effect_invoke: "P c \<Longrightarrow> effect (appended P) (invoke env c)"
  by (auto simp: effect_def appended_def invoke_def log_call_def split: option.splits)

lemma effect_answer: "P c \<Longrightarrow> effect (appended P) (answer c v)"
  by (auto simp: effect_def appended_def answer_def log_call_def)

lemma effect_writes: "(\<And>w. calls (g w) = calls w) \<Longrightarrow> effect (appended P) (writes g)"
  by (auto simp: effect_def appended_def writes_def)

lemma effect_case_option:
  "effect R a \<Longrightarrow> (\<And>x. effect R (b x)) \<Longrightarrow> effect R (case v of None \<Rightarrow> a | Some x \<Rightarrow> b x)"
  by (cases v) auto

lemma effect_if: "effect R a \<Longrightarrow> effect R b \<Longrightarrow> effect R (if c then a else b)"
  by simp

lemmas effect_world_rules =
  effect_bind [OF transp_appended] effect_try_catch [OF transp_appended]
  effect_ret [OF reflp_appended] effect_reads [OF reflp_appended]
  effect_lift_sum [OF reflp_appended] effect_invoke effect_answer effect_writes
  effect_case_option effect_if effect_with_result

lemmas effect_worker_rules =
  effect_bind [OF transp_on_world [OF transp_appended]]
  effect_try_catch [OF transp_on_world [OF transp_appended]]
  effect_ret [OF reflp_on_world [OF reflp_appended]]
  effect_lift_sum [OF reflp_on_world [OF reflp_appended]]
  effect_on_result [OF reflp_appended] effect_in_world
  effect_case_option effect_if




subsection \<open>What the functions log\<close>

lemma effect_state_manager:
  assumes "\<And>c. \<not> fetches_item_content c \<Longrightarrow> P c"
  shows "effect (appended P) (get_item_state env k)"
    and "effect (appended P) (upsert_item env st j)"
    and "effect (appended P) (mark_item_removed env k)"
    and "effect (appended P) (get_all_item_keys env)"
    and "effect (appended P) (get_active_items env)"
    and "effect (appended P) (select_item_json env k)"
    and "effect (appended P) (get_last_library_version env)"
    and "effect (appended P) (update_library_version env v)"
    and "effect (appended P) (record_full_sync env v)"
    and "effect (appended P) (get_template_version env)"
    and "effect (appended P) (record_template_version env h p)"
  unfolding get_item_state_def upsert_item_def mark_item_removed_def get_all_item_keys_def
    get_active_items_def select_item_json_def get_last_library_version_def
    update_library_version_def record_full_sync_def get_template_version_def
    record_template_version_def
  by (intro effect_world_rules assms; simp)+

lemma effect_file_manager:
  assumes "\<And>c. \<not> fetches_item_content c \<Longrightarrow> P c"
  shows "effect (appended P) (read_existing env ck)"
    and "effect (appended P) (write_markdown env ck md)"
    and "effect (appended P) (get_content_hash env ck)"
    and "effect (appended P) (handle_removed_item env ck)"
    and "effect (appended P) (render_item env item anns notes att)"
  unfolding read_existing_def write_markdown_def get_content_hash_def handle_removed_item_def
    render_item_def
  by (intro effect_world_rules assms; simp)+

lemma effect_build_batch_data:
  assumes "\<And>c. \<not> fetches_item_content c \<Longrightarrow> P c"
  shows "effect (appended P) (build_batch_data env sp)"
  unfolding build_batch_data_def get_all_annotations_def get_all_attachments_def
  by (intro effect_world_rules assms; simp)

lemma effect_sync_single_item_batch:
  assumes "\<And>c. \<not> fetches_item_content c \<Longrightarrow> P c"
  shows "effect (on_world (appended P)) (sync_single_item_batch env item_data batch force)"
  unfolding sync_single_item_batch_def render_and_store_def Let_def
  by (intro effect_worker_rules effect_state_manager effect_file_manager assms; simp)

lemma effect_process_items:
  assumes "\<And>c. \<not> fetches_item_content c \<Longrightarrow> P c"
  shows "effect (on_world (appended P)) (process_items env items batch force)"
proof (induction items)
  case Nil
  show ?case by (simp add: effect_worker_rules)
next
  case (Cons item_data items)
  show ?case
    unfolding process_items.simps
    by (intro effect_worker_rules effect_sync_single_item_batch assms Cons.IH)
qed

lemma effect_handle_deleted_item:
  assumes "\<And>c. \<not> fetches_item_content c \<Longrightarrow> P c"
  shows "effect (appended P) (handle_deleted_item env k)"
  unfolding handle_deleted_item_def
  by (intro effect_world_rules effect_state_manager effect_file_manager assms; simp)

lemma effect_handle_removed_loop:
  assumes "\<And>c. \<not> fetches_item_content c \<Longrightarrow> P c"
  shows "effect (appended P) (handle_removed_loop env ks n)"
proof (induction ks arbitrary: n)
  case Nil
  show ?case by (simp add: effect_world_rules)
next
  case (Cons k ks)
  show ?case
    unfolding handle_removed_loop.simps
    by (intro effect_world_rules effect_handle_deleted_item assms Cons.IH)
qed

lemma effect_process_deleted:
  assumes "\<And>c. \<not> fetches_item_content c \<Longrightarrow> P c"
  shows "effect (appended P) (process_deleted env ks r)"
proof (induction ks arbitrary: r)
  case Nil
  show ?case by (simp add: effect_world_rules)
next
  case (Cons k ks)
  show ?case
    unfolding process_deleted.simps
    by (intro effect_world_rules effect_handle_deleted_item assms Cons.IH)
qed

lemma effect_handle_removed_items:
  assumes "P GetAllItems" "\<And>c. \<not> fetches_item_content c \<Longrightarrow> P c"
  shows "effect (appended P) (handle_removed_items env)"
  unfolding handle_removed_items_def get_all_items_def Let_def
  by (intro effect_world_rules effect_state_manager effect_handle_removed_loop assms; simp)

lemma effect_full_sync:
  assumes "P GetAllItems" "\<And>c. \<not> fetches_item_content c \<Longrightarrow> P c"
  shows "effect (appended P) (full_sync env sp)"
  unfolding full_sync_def get_library_version_def get_all_items_def
  by (intro effect_world_rules effect_state_manager effect_build_batch_data
      effect_process_items effect_handle_removed_items assms; simp)

subsection \<open>Per-item reconciliation\<close>

text \<open>The two branches of the change signal are one comparison of counts.\<close>

lemma annotations_changed_iff:
  "annotations_changed env c anns \<longleftrightarrow> artifact_annot_count env c \<noteq> int (length anns)"
  by (auto simp: annotations_changed_def artifact_annot_count_def split: option.splits)

text \<open>A tracked item that is forced, or whose version advanced, or whose annotation count
  differs, goes through render, write, hash and upsert when none of them raises.\<close>

lemma reconcile_existing_renders:
  assumes "item_from_api_response env item_data = Inr (Some item)"
    and "lookup_row (zi_key item) (sync_items w) = Some (st, j)"
    and "force \<or> zotero_version st < zi_version item
         \<or> artifact_annot_count env (map_of (files w) (zi_citation_key item))
            \<noteq> int (length (annotations_for batch (zi_key item)))"
    and "fault env (GetItemState (zi_key item)) = None"
    and "fault env (ReadExisting (zi_citation_key item)) = None"
    and "fault env (WriteMarkdown (zi_citation_key item)) = None"
    and "fault env (GetContentHash (zi_citation_key item)) = None"
    and "fault env (UpsertItem (zi_key item)) = None"
    and "render env item (annotations_for batch (zi_key item))
           (preserved_notes_for env (map_of (files w) (zi_citation_key item)) True)
           (attachment_keys batch (zi_key item)) = Inr markdown"
  shows "sync_single_item_batch env item_data batch force (w, r) =
    (Inr (),
     (w\<lparr>sync_items := upsert_row
            (new_item_state item (artifact_path env (zi_citation_key item))
               (Some (fingerprint env markdown)),
             Some item_data) (sync_items w),
        files := AList.update (zi_citation_key item) markdown (files w),
        calls := calls w @ [GetItemState (zi_key item), ReadExisting (zi_citation_key item),
          RenderItem (zi_key item), WriteMarkdown (zi_citation_key item),
          GetContentHash (zi_citation_key item), UpsertItem (zi_key item)]\<rparr>,
      r\<lparr>total_items_processed := total_items_processed r + 1,
        annotations_synced :=
          annotations_synced r + int (length (annotations_for batch (zi_key item))),
        items_updated := items_updated r + 1\<rparr>))"
  using assms
  by (auto simp: sync_single_item_batch_def render_and_store_def prog_defs coll_defs
      annotations_changed_iff result_defs new_item_state_def update_conv' Let_def)

text \<open>
  Claim C1. A record that parses and has a row is reconciled with force-rerender off. If its
  version is not above the stored one and the number of markers in its artifact is the number
  of incoming annotations, the item is skipped: the state after the call is the state before
  it except for the log (no row and no artifact changed), the only calls made are the lookup
  of the row and the read of the artifact (so no render, no write, no upsert), and the call
  returns normally when these two do not raise.
\<close>

theorem unchanged_item_is_skipped:
  assumes "item_from_api_response env item_data = Inr (Some item)"
    and "lookup_row (zi_key item) (sync_items w) = Some (st, j)"
    and "\<not> zotero_version st < zi_version item"
    and "artifact_annot_count env (map_of (files w) (zi_citation_key item))
           = int (length (annotations_for batch (zi_key item)))"
    and "sync_single_item_batch env item_data batch False (w, r) = (res, (w', r'))"
  shows "w'\<lparr>calls := calls w\<rparr> = w
    \<and> set (calls_since w w')
        \<subseteq> {GetItemState (zi_key item), ReadExisting (zi_citation_key item)}
    \<and> (fault env (GetItemState (zi_key item)) = None
         \<and> fault env (ReadExisting (zi_citation_key item)) = None \<longrightarrow> res = Inr ())"
  using assms
  by (auto simp: sync_single_item_batch_def prog_defs coll_defs annotations_changed_iff Let_def
      calls_since_def split: option.splits)

lemma demo_skip_run:
  "sync_single_item_batch demo_env demo_raw (demo_batch 2) False
     (demo_world 10 (Some demo_raw) (Some 12) ''h1'', empty_result)
   = (Inr (),
      (demo_world 10 (Some demo_raw) (Some 12) ''h1''
         \<lparr>calls := [GetItemState ''K1'', ReadExisting ''smith2020'']\<rparr>,
       empty_result\<lparr>total_items_processed := 1, annotations_synced := 2\<rparr>))"
  by (simp add: sync_single_item_batch_def prog_defs coll_defs result_defs annotations_changed_iff
      demo_two_markers annotations_for_def demo_simps empty_result_def Let_def)

lemma demo_skip_facts:
  "item_from_api_response demo_env demo_raw = Inr (Some demo_item)"
  "lookup_row (zi_key demo_item) (sync_items (demo_world 10 (Some demo_raw) (Some 12) ''h1''))
     = Some (demo_state 10, Some demo_raw)"
  "\<not> zotero_version (demo_state 10) < zi_version demo_item"
  "artifact_annot_count demo_env
     (map_of (files (demo_world 10 (Some demo_raw) (Some 12) ''h1'')) (zi_citation_key demo_item))
     = int (length (annotations_for (demo_batch 2) (zi_key demo_item)))"
  "fault demo_env (GetItemState (zi_key demo_item)) = None"
  "fault demo_env (ReadExisting (zi_citation_key demo_item)) = None"
  by (simp_all add: demo_env_simps demo_world_def demo_item_def demo_raw_def demo_state_def
      demo_two_markers annotations_for_def demo_batch_def lookup_row_def)

theorem unchanged_item_is_skipped_witness:
  "(demo_world 10 (Some demo_raw) (Some 12) ''h1''
      \<lparr>calls := [GetItemState ''K1'', ReadExisting ''smith2020'']\<rparr>)
      \<lparr>calls := calls (demo_world 10 (Some demo_raw) (Some 12) ''h1'')\<rparr>
    = demo_world 10 (Some demo_raw) (Some 12) ''h1''
   \<and> fst (sync_single_item_batch demo_env demo_raw (demo_batch 2) False
       (demo_world 10 (Some demo_raw) (Some 12) ''h1'', empty_result)) = Inr ()"
  using unchanged_item_is_skipped [OF demo_skip_facts(1-4) demo_skip_run] demo_skip_facts(5,6)
  by (simp add: demo_skip_run)

text \<open>
  Claim C7. A record that parses and has a row, and whose version is strictly above the stored
  one or whose number of incoming annotations differs from the number of markers in its
  artifact, is rendered, written and upserted, and counted as updated once: when no call
  raises, the call makes exactly one render, one write and one upsert, and the result has one
  more processed and one more updated item and no other counter changed but the annotations.
  The witness is the spec's example: stored version 10, two markers, incoming version 10 with
  three annotations.
\<close>

theorem changed_item_is_updated:
  assumes "item_from_api_response env item_data = Inr (Some item)"
    and "lookup_row (zi_key item) (sync_items w) = Some (st, j)"
    and "zotero_version st < zi_version item
         \<or> int (length (annotations_for batch (zi_key item)))
            \<noteq> artifact_annot_count env (map_of (files w) (zi_citation_key item))"
    and "fault env (GetItemState (zi_key item)) = None"
    and "fault env (ReadExisting (zi_citation_key item)) = None"
    and "fault env (WriteMarkdown (zi_citation_key item)) = None"
    and "fault env (GetContentHash (zi_citation_key item)) = None"
    and "fault env (UpsertItem (zi_key item)) = None"
    and "render env item (annotations_for batch (zi_key item))
           (preserved_notes_for env (map_of (files w) (zi_citation_key item)) True)
           (attachment_keys batch (zi_key item)) = Inr markdown"
  shows "sync_single_item_batch env item_data batch force (w, r) =
    (Inr (),
     (w\<lparr>sync_items := upsert_row
            (new_item_state item (artifact_path env (zi_citation_key item))
               (Some (fingerprint env markdown)),
             Some item_data) (sync_items w),
        files := AList.update (zi_citation_key item) markdown (files w),
        calls := calls w @ [GetItemState (zi_key item), ReadExisting (zi_citation_key item),
          RenderItem (zi_key item), WriteMarkdown (zi_citation_key item),
          GetContentHash (zi_citation_key item), UpsertItem (zi_key item)]\<rparr>,
      r\<lparr>total_items_processed := total_items_processed r + 1,
        annotations_synced :=
          annotations_synced r + int (length (annotations_for batch (zi_key item))),
        items_updated := items_updated r + 1\<rparr>))"
proof (rule reconcile_existing_renders [OF assms(1,2) _ assms(4-9)])
  from assms(3)
  show "force \<or> zotero_version st < zi_version item
    \<or> artifact_annot_count env (map_of (files w) (zi_citation_key item))
        \<noteq> int (length (annotations_for batch (zi_key item)))"
    by auto
qed

theorem changed_item_is_updated_witness:
  "sync_single_item_batch demo_env demo_raw (demo_batch 3) False
     (demo_world 10 (Some demo_raw) (Some 12) ''h1'', empty_result)
   = (Inr (),
      (demo_world 10 (Some demo_raw) (Some 12) ''h1''
         \<lparr>sync_items := [(demo_state 10\<lparr>content_hash :=
               Some ''- <mark class=x>- <mark class=x>- <mark class=x>''\<rparr>,
             Some demo_raw)],
          files := [(''smith2020'', ''- <mark class=x>- <mark class=x>- <mark class=x>'')],
          calls := [GetItemState ''K1'', ReadExisting ''smith2020'', RenderItem ''K1'',
            WriteMarkdown ''smith2020'', GetContentHash ''smith2020'', UpsertItem ''K1'']\<rparr>,
       empty_result\<lparr>total_items_processed := 1, annotations_synced := 3,
         items_updated := 1\<rparr>))"
  using changed_item_is_updated [of demo_env demo_raw demo_item
      "demo_world 10 (Some demo_raw) (Some 12) ''h1''" "demo_state 10" "Some demo_raw"
      "demo_batch 3" "''- <mark class=x>- <mark class=x>- <mark class=x>''" False empty_result]
  by (simp add: demo_env_simps demo_world_def demo_item_def demo_raw_def demo_state_def
      demo_two_markers annotations_for_def demo_batch_def new_item_state_def empty_result_def
      lookup_row_def upt_rec)

text \<open>
  Claim C10. When a tracked item is skipped as unchanged (force-rerender off, version not
  advanced, counts equal, lookup and read not raising), the result of the run has one more
  processed item and the item's annotations added to the annotation total, and is otherwise
  as before: none of created, updated and skipped moves. And whatever the record, the state
  and the flag, a call adds one to the skipped counter exactly when the parser finds no
  citation key, and nothing otherwise.
\<close>

theorem skipped_item_counters:
  assumes "item_from_api_response env item_data = Inr (Some item)"
    and "lookup_row (zi_key item) (sync_items w) = Some (st, j)"
    and "\<not> zotero_version st < zi_version item"
    and "artifact_annot_count env (map_of (files w) (zi_citation_key item))
           = int (length (annotations_for batch (zi_key item)))"
    and "fault env (GetItemState (zi_key item)) = None"
    and "fault env (ReadExisting (zi_citation_key item)) = None"
  shows "snd (snd (sync_single_item_batch env item_data batch False (w, r)))
      = r\<lparr>total_items_processed := total_items_processed r + 1,
          annotations_synced :=
            annotations_synced r + int (length (annotations_for batch (zi_key item)))\<rparr>
    \<and> (\<forall>env' d b f w0 r0.
         items_skipped (snd (snd (sync_single_item_batch env' d b f (w0, r0))))
           = items_skipped r0 + (if item_from_api_response env' d = Inr None then 1 else 0))"
proof
  show "snd (snd (sync_single_item_batch env item_data batch False (w, r)))
      = r\<lparr>total_items_processed := total_items_processed r + 1,
          annotations_synced :=
            annotations_synced r + int (length (annotations_for batch (zi_key item)))\<rparr>"
    using assms
    by (simp add: sync_single_item_batch_def prog_defs coll_defs annotations_changed_iff
        result_defs Let_def)
next
  show "\<forall>env' d b f w0 r0.
      items_skipped (snd (snd (sync_single_item_batch env' d b f (w0, r0))))
        = items_skipped r0 + (if item_from_api_response env' d = Inr None then 1 else 0)"
    by (auto simp: sync_single_item_batch_def render_and_store_def prog_defs coll_defs
        result_defs Let_def split: option.splits sum.splits if_splits)
qed

theorem skipped_item_counters_witness:
  "snd (snd (sync_single_item_batch demo_env demo_raw (demo_batch 2) False
       (demo_world 10 (Some demo_raw) (Some 12) ''h1'', empty_result)))
     = empty_result\<lparr>total_items_processed := 1, annotations_synced := 2\<rparr>
   \<and> items_skipped (snd (snd (sync_single_item_batch demo_env \<lparr>raw_key = None, raw_body = []\<rparr>
       (demo_batch 2) False (demo_world 10 (Some demo_raw) (Some 12) ''h1'', empty_result)))) = 1"
  using skipped_item_counters [OF demo_skip_facts, where r = empty_result]
  by (simp add: demo_env_simps demo_batch_def annotations_for_def demo_item_def
      empty_result_def)

subsection \<open>The batch prefetcher\<close>

lemma attachment_step_keys:
  "snd (attachment_step a (a2p, keys)) p =
     (if is_primary_candidate p a then att_key a else keys p)"
  by (auto simp: attachment_step_def is_primary_candidate_def truthy_def split: option.splits)

lemma fold_attachment_step_keys:
  "snd (fold attachment_step atts acc) p =
     (case filter (is_primary_candidate p) atts of
        [] \<Rightarrow> snd acc p
      | a # as \<Rightarrow> att_key (last (a # as)))"
proof (induction atts arbitrary: acc)
  case Nil
  show ?case by simp
next
  case (Cons a atts)
  obtain a2p keys where acc: "acc = (a2p, keys)" by (cases acc)
  show ?case
    using Cons.IH [of "attachment_step a (a2p, keys)"]
    by (simp add: acc attachment_step_keys split: list.splits)
qed


text \<open>
  Claim C3, as amended. For every list of raw attachments and every parent \<open>p\<close>, the prefetcher
  records for \<open>p\<close> the key of the last attachment of the list that has a non-empty key, the
  parent \<open>p\<close> and a content type containing \<open>pdf\<close> (in whatever case): each later match
  overwrites the earlier one. An attachment without a parent or without a key is skipped,
  and a parent with no matching attachment is absent from the map.
\<close>

theorem primary_attachment_is_last_match:
  "snd (index_attachments atts) p =
     (case filter (is_primary_candidate p) atts of
        [] \<Rightarrow> None
      | a # as \<Rightarrow> att_key (last (a # as)))"
  by (simp add: index_attachments_def fold_attachment_step_keys split: list.splits)

text \<open>The claim as stated, with the first match, fails on two PDFs of one record: the first
  match is \<open>A1\<close> and the prefetcher records \<open>A2\<close>.\<close>

theorem primary_attachment_first_match_counterexample:
  "find (is_primary_candidate ''K1'') two_pdfs = Some demo_pdf
   \<and> att_key demo_pdf = Some ''A1''
   \<and> snd (index_attachments two_pdfs) ''K1'' = Some ''A2''"
  by (simp add: two_pdfs_def index_attachments_def attachment_step_def is_primary_candidate_def
      truthy_def demo_pdf_def lower_def lower_char_def)

subsection \<open>Mode selection\<close>

lemma mode_selection_defs:
  "get_last_library_version env w =
     (case fault env GetLastLibraryVersion of
        Some e \<Rightarrow> (Inl e, log_call GetLastLibraryVersion w)
      | None \<Rightarrow> (Inr (last_library_version w), log_call GetLastLibraryVersion w))"
  "get_template_version env w =
     (case fault env GetTemplateVersion of
        Some e \<Rightarrow> (Inl e, log_call GetTemplateVersion w)
      | None \<Rightarrow> (Inr (stored_template_version w), log_call GetTemplateVersion w))"
  "get_library_version env w = (remote_library_version env, log_call GetLibraryVersion w)"
  by (simp_all add: get_last_library_version_def get_template_version_def get_library_version_def
      prog_defs split: option.splits)

lemma full_sync_no_delta_fetch:
  "\<not> list_ex is_delta_fetch (calls_since w (snd (full_sync env sp w)))"
proof -
  have "effect (appended (\<lambda>c. \<not> is_delta_fetch c)) (full_sync env sp)"
    by (rule effect_full_sync) (simp, case_tac c, simp_all)
  then have "appended (\<lambda>c. \<not> is_delta_fetch c) w (snd (full_sync env sp w))"
    by (simp add: effect_def)
  then show ?thesis
    by (auto simp: appended_def calls_since_def list_ex_iff)
qed

text \<open>
  Claim C2. With the lookup of the last recorded version not raising: when no version is
  recorded, incremental sync is full sync (run after that lookup); when a version \<open>lv\<close> is
  recorded, the remote version is \<open>cv\<close> and the template has not changed, then for \<open>cv = lv\<close>
  it returns the empty result and leaves the state as it was but for the three lookups in
  the log, and for \<open>cv - lv > 1000\<close> it is full sync, and no fetch of the records modified
  since a version is among the calls of the run.
\<close>

theorem incremental_mode_selection:
  assumes "fault env GetLastLibraryVersion = None"
  shows "(last_library_version w = None \<longrightarrow>
            incremental_sync env sp w
              = full_sync env sp (w\<lparr>calls := calls w @ [GetLastLibraryVersion]\<rparr>))
    \<and> (\<forall>lv cv. last_library_version w = Some lv \<and> remote_library_version env = Inr cv
           \<and> fault env GetTemplateVersion = None
           \<and> \<not> has_template_changed (template_hash_now env) (template_path_now env)
                 (stored_template_version w)
         \<longrightarrow> (cv = lv \<longrightarrow>
                incremental_sync env sp w
                  = (Inr empty_result,
                     w\<lparr>calls := calls w
                        @ [GetLastLibraryVersion, GetLibraryVersion, GetTemplateVersion]\<rparr>))
            \<and> (cv - lv > 1000 \<longrightarrow>
                incremental_sync env sp w
                  = full_sync env sp
                     (w\<lparr>calls := calls w
                        @ [GetLastLibraryVersion, GetLibraryVersion, GetTemplateVersion]\<rparr>)
                \<and> \<not> list_ex is_delta_fetch
                      (calls_since w (snd (incremental_sync env sp w)))))"
proof (intro conjI allI impI)
  assume "last_library_version w = None"
  with assms show "incremental_sync env sp w
      = full_sync env sp (w\<lparr>calls := calls w @ [GetLastLibraryVersion]\<rparr>)"
    by (simp add: incremental_sync_def bind_def mode_selection_defs log_call_def)
next
  fix lv cv
  assume h: "last_library_version w = Some lv \<and> remote_library_version env = Inr cv
           \<and> fault env GetTemplateVersion = None
           \<and> \<not> has_template_changed (template_hash_now env) (template_path_now env)
                 (stored_template_version w)"
  {
    assume "cv = lv"
    with assms h show "incremental_sync env sp w
        = (Inr empty_result,
           w\<lparr>calls := calls w @ [GetLastLibraryVersion, GetLibraryVersion, GetTemplateVersion]\<rparr>)"
      by (simp add: incremental_sync_def bind_def mode_selection_defs log_call_def ret_def)
  }
  {
    assume gap: "cv - lv > 1000"
    with assms h show eq: "incremental_sync env sp w
        = full_sync env sp
           (w\<lparr>calls := calls w @ [GetLastLibraryVersion, GetLibraryVersion, GetTemplateVersion]\<rparr>)"
      by (simp add: incremental_sync_def bind_def mode_selection_defs log_call_def)
    have "\<not> list_ex is_delta_fetch (calls_since
        (w\<lparr>calls := calls w @ [GetLastLibraryVersion, GetLibraryVersion, GetTemplateVersion]\<rparr>)
        (snd (full_sync env sp
           (w\<lparr>calls := calls w @ [GetLastLibraryVersion, GetLibraryVersion, GetTemplateVersion]\<rparr>))))"
      by (rule full_sync_no_delta_fetch)
    moreover have "appended (\<lambda>c. True)
        (w\<lparr>calls := calls w @ [GetLastLibraryVersion, GetLibraryVersion, GetTemplateVersion]\<rparr>)
        (snd (full_sync env sp
           (w\<lparr>calls := calls w @ [GetLastLibraryVersion, GetLibraryVersion, GetTemplateVersion]\<rparr>)))"
      using effect_full_sync [of "\<lambda>c. True" env sp] by (simp add: effect_def)
    ultimately show "\<not> list_ex is_delta_fetch (calls_since w (snd (incremental_sync env sp w)))"
      by (auto simp: eq appended_def calls_since_def list_ex_iff)
  }
qed


theorem incremental_mode_selection_witness:
  "incremental_sync demo_env False (empty_world None)
     = full_sync demo_env False ((empty_world None)\<lparr>calls := [GetLastLibraryVersion]\<rparr>)
   \<and> incremental_sync demo_env False (demo_world 10 (Some demo_raw) (Some 12) ''h1'')
     = (Inr empty_result,
        (demo_world 10 (Some demo_raw) (Some 12) ''h1'')
          \<lparr>calls := [GetLastLibraryVersion, GetLibraryVersion, GetTemplateVersion]\<rparr>)
   \<and> \<not> list_ex is_delta_fetch
        (calls_since (demo_world 10 (Some demo_raw) (Some 12) ''h1'')
          (snd (incremental_sync far_env False (demo_world 10 (Some demo_raw) (Some 12) ''h1''))))"
  using incremental_mode_selection [of demo_env "empty_world None" False]
    incremental_mode_selection [of demo_env "demo_world 10 (Some demo_raw) (Some 12) ''h1''" False]
    incremental_mode_selection [of far_env "demo_world 10 (Some demo_raw) (Some 12) ''h1''" False]
  by (auto simp add: far_env_def demo_env_simps demo_world_def empty_world_def
      has_template_changed_def)

subsection \<open>Deletions\<close>

text \<open>
  Claim C4 (evaluation at the failing input). The store is empty, version 11 is on record,
  the remote library is at version 12 with nothing modified and reports the key \<open>GHOST\<close> as
  deleted. The lookup finds no row, nothing is handed to the file layer and nothing is
  marked, and yet the run returns with the removed counter at 1.
\<close>

theorem untracked_deletion_is_counted:
  "incremental_sync ghost_env False (empty_world (Some 11)) =
     (Inr (empty_result\<lparr>items_removed := 1\<rparr>),
      \<lparr>sync_items = [], last_library_version = Some 12,
       stored_template_version = Some \<lparr>template_hash = ''h1'', template_path = ''built-in''\<rparr>,
       files = [],
       calls = [GetLastLibraryVersion, GetLibraryVersion, GetTemplateVersion,
         GetItemsSinceVersion 11, GetAllAnnotations, GetAllAttachments, GetDeletedItems 11,
         GetItemState ''GHOST'', UpdateLibraryVersion 12,
         RecordTemplateVersion ''h1'' ''built-in'']\<rparr>)"
  by (simp add: ghost_env_def eval_defs)

subsection \<open>Two runs in a row\<close>

lemma record_template_version_Inr:
  "record_template_version env h p w = (Inr x, w') \<Longrightarrow>
     stored_template_version w' = Some \<lparr>template_hash = h, template_path = p\<rparr>"
  by (auto simp: record_template_version_def prog_defs split: option.splits)

lemma recorded_template_unchanged:
  "\<not> has_template_changed h p (Some \<lparr>template_hash = h, template_path = p\<rparr>)"
  by (simp add: has_template_changed_def)

lemma full_sync_records_template:
  assumes "full_sync env sp w = (Inr r, w')"
  shows "stored_template_version w' = Some \<lparr>template_hash = template_hash_now env,
     template_path = template_path_now env\<rparr>"
  using assms
  by (auto simp: full_sync_def bind_def ret_def split: prod.splits sum.splits
      dest: record_template_version_Inr)

lemma full_rerender_records_template:
  assumes "full_rerender_all_items env sp w = (Inr r, w')"
  shows "stored_template_version w' = Some \<lparr>template_hash = template_hash_now env,
     template_path = template_path_now env\<rparr>"
  using assms
  by (auto simp: full_rerender_all_items_def bind_def ret_def split: prod.splits sum.splits
      dest: record_template_version_Inr)

lemma incremental_sync_success:
  assumes "incremental_sync env sp w = (Inr r, w')"
  shows "fault env GetLastLibraryVersion = None
    \<and> \<not> has_template_changed (template_hash_now env) (template_path_now env)
          (stored_template_version w')"
proof -
  have nofault: "fault env GetLastLibraryVersion = None"
    using assms
    by (auto simp: incremental_sync_def bind_def mode_selection_defs split: option.splits)
  have "stored_template_version w' = Some \<lparr>template_hash = template_hash_now env,
       template_path = template_path_now env\<rparr>
     \<or> (stored_template_version w' = stored_template_version w
        \<and> \<not> has_template_changed (template_hash_now env) (template_path_now env)
            (stored_template_version w))"
    using assms nofault
    by (auto simp: incremental_sync_def bind_def ret_def mode_selection_defs log_call_def
        split: prod.splits sum.splits option.splits if_splits
        dest: record_template_version_Inr full_sync_records_template
          full_rerender_records_template)
  then show ?thesis
    using nofault by (auto simp: recorded_template_unchanged)
qed

lemma commit_Inr_iff:
  "record_template_version env h p w = (Inr x, w') \<longleftrightarrow>
     fault env (RecordTemplateVersion h p) = None
     \<and> w' = w\<lparr>calls := calls w @ [RecordTemplateVersion h p],
              stored_template_version := Some \<lparr>template_hash = h, template_path = p\<rparr>\<rparr>"
  "record_full_sync env v w = (Inr x, w') \<longleftrightarrow>
     fault env (RecordFullSync v) = None
     \<and> w' = w\<lparr>calls := calls w @ [RecordFullSync v], last_library_version := Some v\<rparr>"
  "update_library_version env v w = (Inr x, w') \<longleftrightarrow>
     fault env (UpdateLibraryVersion v) = None
     \<and> w' = w\<lparr>calls := calls w @ [UpdateLibraryVersion v], last_library_version := Some v\<rparr>"
  by (auto simp: record_template_version_def record_full_sync_def update_library_version_def
      prog_defs split: option.splits)

lemma full_sync_commits_version:
  assumes "full_sync env sp w = (Inr r, w')"
  shows "\<exists>cv. remote_library_version env = Inr cv \<and> last_library_version w' = Some cv"
  using assms
  by (auto simp: full_sync_def bind_def ret_def get_library_version_def answer_def
      commit_Inr_iff split: prod.splits sum.splits)

lemma incremental_sync_commits_version:
  assumes "incremental_sync env sp w = (Inr r, w')"
    and "remote_library_version env = Inr cv"
    and "last_library_version w = None
         \<or> \<not> has_template_changed (template_hash_now env) (template_path_now env)
               (stored_template_version w)"
  shows "last_library_version w' = Some cv"
  using assms
  by (auto simp: incremental_sync_def bind_def ret_def mode_selection_defs log_call_def
      commit_Inr_iff split: prod.splits sum.splits option.splits if_splits
      dest: full_sync_commits_version)

lemma demo_first_run:
  "incremental_sync demo_env False (demo_world 10 (Some demo_raw) (Some 11) ''h1'') =
     (Inr (empty_result\<lparr>total_items_processed := 1, items_updated := 1,
        annotations_synced := 3\<rparr>),
      \<lparr>sync_items = [(demo_state 10\<lparr>content_hash :=
               Some ''- <mark class=x>- <mark class=x>- <mark class=x>''\<rparr>, Some demo_raw)],
       last_library_version = Some 12,
       stored_template_version = Some \<lparr>template_hash = ''h1'', template_path = ''built-in''\<rparr>,
       files = [(''smith2020'', ''- <mark class=x>- <mark class=x>- <mark class=x>'')],
       calls = [GetLastLibraryVersion, GetLibraryVersion, GetTemplateVersion,
        GetItemsSinceVersion 11, GetAllAnnotations, GetAllAttachments,
        GetItemState ''K1'', ReadExisting ''smith2020'', RenderItem ''K1'',
        WriteMarkdown ''smith2020'', GetContentHash ''smith2020'',
        UpsertItem ''K1'', GetDeletedItems 11, UpdateLibraryVersion 12,
        RecordTemplateVersion ''h1'' ''built-in'']\<rparr>)"
  by (simp add: eval_defs)

text \<open>
  Claim C9. An incremental sync returns normally, with the remote library at version \<open>cv\<close>.
  Unless it took the re-render path (a version was on record and the template had changed),
  it leaves \<open>cv\<close> as the recorded version. And whenever \<open>cv\<close> is the recorded version after it,
  a second incremental sync against the same remote library and template returns the empty
  result (created, updated and removed all zero) and changes nothing but the log, provided
  the lookup of the template version does not raise.
\<close>

theorem second_incremental_sync_is_empty:
  assumes "incremental_sync env sp w = (Inr r, w')"
    and "remote_library_version env = Inr cv"
    and "fault env GetTemplateVersion = None"
  shows "(last_library_version w = None
          \<or> \<not> has_template_changed (template_hash_now env) (template_path_now env)
                (stored_template_version w)
          \<longrightarrow> last_library_version w' = Some cv)
    \<and> (last_library_version w' = Some cv \<longrightarrow>
         incremental_sync env sp w' =
           (Inr empty_result,
            w'\<lparr>calls := calls w'
               @ [GetLastLibraryVersion, GetLibraryVersion, GetTemplateVersion]\<rparr>))"
proof (intro conjI impI)
  assume "last_library_version w = None
          \<or> \<not> has_template_changed (template_hash_now env) (template_path_now env)
                (stored_template_version w)"
  with assms(1,2) show "last_library_version w' = Some cv"
    by (rule incremental_sync_commits_version)
next
  assume "last_library_version w' = Some cv"
  with incremental_sync_success [OF assms(1)] assms(2,3)
  show "incremental_sync env sp w' =
      (Inr empty_result,
       w'\<lparr>calls := calls w' @ [GetLastLibraryVersion, GetLibraryVersion, GetTemplateVersion]\<rparr>)"
    by (simp add: incremental_sync_def bind_def mode_selection_defs log_call_def ret_def)
qed


theorem second_incremental_sync_is_empty_witness:
  "last_library_version
     (snd (incremental_sync demo_env False (demo_world 10 (Some demo_raw) (Some 11) ''h1'')))
     = Some 12
   \<and> fst (incremental_sync demo_env False
       (snd (incremental_sync demo_env False (demo_world 10 (Some demo_raw) (Some 11) ''h1''))))
     = Inr empty_result"
proof -
  have unchanged: "last_library_version (demo_world 10 (Some demo_raw) (Some 11) ''h1'') = None
      \<or> \<not> has_template_changed (template_hash_now demo_env) (template_path_now demo_env)
           (stored_template_version (demo_world 10 (Some demo_raw) (Some 11) ''h1''))"
    by (simp add: demo_env_simps demo_world_def has_template_changed_def)
  have remote: "remote_library_version demo_env = Inr 12"
    and nofault: "fault demo_env GetTemplateVersion = None"
    by (simp_all add: demo_env_simps)
  from second_incremental_sync_is_empty [OF demo_first_run remote nofault] unchanged
  show ?thesis by (simp add: demo_first_run)
qed

subsection \<open>Full sync\<close>


lemma grows:
  "effect (appended (\<lambda>c. True)) m \<Longrightarrow> \<exists>cs. calls (snd (m w)) = calls w @ cs"
  by (auto simp: effect_def appended_def)










subsection \<open>Template change\<close>





















subsection \<open>Failures\<close>

















lemmas failing_env_defs = boom_env_def offline_env_def no_annotations_env_def
  no_deleted_env_def locked_env_def keyless_raw_def rendered_world_def demo_prefetched_def
  delta_selected_def



lemma locked_run_facts:
  "delta_selected locked_env (demo_world 10 (Some demo_raw) (Some 11) ''h1'') 11 12 [demo_raw]"
  "fst (build_batch_data locked_env False (demo_world 10 (Some demo_raw) (Some 11) ''h1''))
     = Inr demo_prefetched"
  "snd (process_items locked_env [demo_raw] demo_prefetched False
     ((demo_world 10 (Some demo_raw) (Some 11) ''h1'')
        \<lparr>calls := calls (demo_world 10 (Some demo_raw) (Some 11) ''h1'')
           @ [GetLastLibraryVersion, GetLibraryVersion, GetTemplateVersion,
              GetItemsSinceVersion 11, GetAllAnnotations, GetAllAttachments]\<rparr>,
      empty_result))
     = (rendered_world [GetLastLibraryVersion, GetLibraryVersion,
          GetTemplateVersion, GetItemsSinceVersion 11, GetAllAnnotations, GetAllAttachments,
          GetItemState ''K1'', ReadExisting ''smith2020'', RenderItem ''K1'',
          WriteMarkdown ''smith2020'', GetContentHash ''smith2020'', UpsertItem ''K1''],
        empty_result\<lparr>total_items_processed := 1, items_updated := 1,
          annotations_synced := 3\<rparr>)"
  "remote_deleted locked_env 11 = Inr []"
  "fault locked_env (UpdateLibraryVersion 12) = Some (Exception ''locked'')"
  "sync_single_item_batch boom_env demo_raw demo_prefetched False
      (demo_world 10 (Some demo_raw) (Some 11) ''h1'', empty_result)
     = (Inl (Exception ''boom''),
        ((demo_world 10 (Some demo_raw) (Some 11) ''h1'')
           \<lparr>calls := [GetItemState ''K1'', ReadExisting ''smith2020'', RenderItem ''K1'']\<rparr>,
         empty_result\<lparr>total_items_processed := 1, annotations_synced := 3\<rparr>))"
  by (simp_all add: failing_env_defs eval_defs)


end
